theory Spec2Isabelle
  imports Main "HOL-Library.Sublist"
begin

section \<open>The data modules\<close>

text \<open>
  The repository holds two JavaScript modules, \<^verbatim>\<open>src/data/projectsData.js\<close> and the
  module that declares \<^verbatim>\<open>experienceData\<close> (its file name is not known; it is
  \<^verbatim>\<open>part_003\<close> of the sources). Both are written in a small fragment of
  the language: a \<^verbatim>\<open>const\<close> declaration whose initialiser is built from string literals
  (\<^verbatim>\<open>'...'\<close>), template literals without substitutions (\<^verbatim>\<open>`...`\<close>), array literals and
  object literals with identifier keys, followed by \<^verbatim>\<open>export default\<close> of an identifier.
  The syntax below is that fragment; an identifier reference is the only expression in it
  that is not a literal.

  A string is the sequence of its code units. Every code unit in the two modules is below
  256, so \<^typ>\<open>char\<close> holds it: the no-break space U+00A0 in the first project description
  is \<^term>\<open>CHR 0xA0\<close>, and a line break inside a template literal is the line feed.
\<close>

datatype expr =
    EStr string
  | ETemplate string
  | EArray "expr list"
  | EObject "(string \<times> expr) list"
  | EIdent string

datatype stmt =
    SConst string expr
  | SExportDefault expr

subsection \<open>\<^verbatim>\<open>src/data/projectsData.js\<close>\<close>

text \<open>
  The array literal of lines 1 to 71 and the module around it. A comma after the last
  element of an array or the last property of an object adds nothing to either.
\<close>

definition projectsData_literal :: expr where
  "projectsData_literal = EArray [
    EObject [
      (''title'', EStr ''NFT Collection''),
      (''description'', ETemplate (''A simple Whatsapp bot for guiding students built with Twilio as the messaging client, \<newline>    Google's Dialog flow for intent filtering, and'' @ [CHR 0xA0] @ ''runs'' @ [CHR 0xA0] @ ''on a Node.js server.'')),
      (''imgSrc'', EStr ''/static/images/projects/bot.png''),
      (''href'', EStr ''https://github.com/ondiekelijah/Student_assistant_bot'')
    ],
    EObject [
      (''title'', EStr ''ARM  robot in Matlab''),
      (''description'', ETemplate ''An e-commerce API that runs on a Node.js server and uses GraphQL as a \<newline>    query language. Optimizes \<newline>    CRUD operation queries and provides support for product reviews and ratings..''),
      (''imgSrc'', EStr ''/static/images/projects/graphql-api.png''),
      (''href'', EStr ''https://github.com/ondiekelijah/GraphQL-e-commerce-API'')
    ],
    EObject [
      (''title'', EStr ''AWS Serverless Expense Tracker API''),
      (''description'', ETemplate ''A serverless AWS expense tracker API. AWS Lambda functions, API gateway, \<newline>    and Dynamodb are among the components. \<newline>    Supports basic CRUD operations made possible by AWS lambda functions. Built with Node.js.''),
      (''imgSrc'', EStr ''/static/images/projects/aws-serverless-api.png''),
      (''href'', EStr ''https://github.com/ondiekelijah/AWS-Serverless-API'')
    ],
    EObject [
      (''title'', EStr ''Social Media API''),
      (''description'', ETemplate ''A social media API that manages user account creation with access tokens, \<newline>    post creation, update, and deletion, \<newline>    as well as upvotes and downvotes. Built with FastAPI and powered by a Postgres database..''),
      (''imgSrc'', EStr ''/static/images/projects/social-media-api.png''),
      (''href'', EStr ''https://github.com/ondiekelijah/Social-Media-App-API'')
    ],
    EObject [
      (''title'', EStr ''Bookmarks Manager API''),
      (''description'', ETemplate ''A bookmark manager API that allows for simple bookmark management. \<newline>    User creation and authentication with access tokens, adding bookmarks, updating, deleting, and viewing existing \<newline>    bookmarks are all features. It also offers bookmark link visit tracking and statistics.''),
      (''imgSrc'', EStr ''/static/images/projects/bookmarks-api.png''),
      (''href'', EStr ''https://github.com/ondiekelijah/BookmarksAPI'')
    ],
    EObject [
      (''title'', EStr ''Threaded Replies App''),
      (''description'', ETemplate ''A Python Flask app with a MySQL database that implements a\<newline>     nested/threaded replies commenting engine. SQLAlchemy is used as the ORM.''),
      (''imgSrc'', EStr ''/static/images/projects/threaded-replies.png''),
      (''href'', EStr ''https://github.com/ondiekelijah/Threaded-Replies-using-Flask-SQLAlchemy-MySQL'')
    ],
    EObject [
      (''title'', EStr ''Olycoin''),
      (''description'', ETemplate ''A Crpto token meant to revolutionize financial sector in Africa, It's one of the most growing tokes and being traded in Africa.''),
      (''imgSrc'', EStr ''/static/images/projects/web-scrapper.png''),
      (''href'', EStr ''https://github.com/chegeanthony/OLYCOIN'')
    ],
    EObject [
      (''title'', EStr ''Nft Marker place Website''),
      (''description'', ETemplate ''Official market-place website of NFTs,(Credit ~ Cris).''),
      (''imgSrc'', EStr ''/static/images/projects/memaafrica.png''),
      (''href'', EStr ''https://www.memaafrica.com/'')
    ],
    EObject [
      (''title'', EStr ''Olyix Technologies Website''),
      (''description'', ETemplate ''Official website for Itesyl Technologies, a fintech company that provides real estate banking services.''),
      (''imgSrc'', EStr ''/static/images/projects/itesyl.png''),
      (''href'', EStr ''https://olyix.com/'')
    ],
    EObject [
      (''title'', EStr ''Kodeec Website''),
      (''description'', ETemplate ''Kodeec mobile app website. Kodeec is a simple, secure, real estate banking app by Itesyl Technologies.''),
      (''imgSrc'', EStr ''/static/images/projects/kodeec.png''),
      (''href'', EStr ''https://kodeec.netlify.app/'')
    ]
  ]"

definition projectsData_js :: "stmt list" where
  "projectsData_js = [SConst ''projectsData'' projectsData_literal, SExportDefault (EIdent ''projectsData'')]"

subsection \<open>The \<^verbatim>\<open>experienceData\<close> module\<close>

definition experienceData_literal :: expr where
  "experienceData_literal = EArray [
    EObject [
      (''title'', EStr ''Author''),
      (''company'', EStr ''Educative Inc''),
      (''location'', EStr ''Remote, Kenya''),
      (''range'', EStr ''February 2023 - Present''),
      (''url'', EStr ''https://www.educative.io/''),
      (''text1'', EStr ''Creating high-quality educational content that is designed to help learners improve their skills and knowledge in various fields.''),
      (''text2'', EStr ''Contributing to the development of comprehensive courses that are tailored to meet the needs of learners at different levels, from beginners to advanced learners.''),
      (''text3'', EStr ''Through my work at Educative.io, I am committed to empowering individuals and organizations with the knowledge and skills they need to succeed in a rapidly changing world.'')
    ],
    EObject [
      (''title'', EStr ''Technical Writer''),
      (''company'', EStr ''Draft.dev''),
      (''location'', EStr ''Remote, Kenya''),
      (''range'', EStr ''February 2023 - Present''),
      (''url'', EStr ''https://draft.dev/''),
      (''text1'', EStr ''Creating articles that focus on automation testing.''),
      (''text2'', EStr ''Researching and writing high-quality content that provides valuable insights into the latest trends and best practices in automation testing.''),
      (''text3'', EStr ''Working closely with subject matter experts and other stakeholders to ensure my articles are accurate, informative, and engaging.'')
    ],
    EObject [
      (''title'', EStr ''Machine Learning lead''),
      (''company'', EStr ''Kirinyaga University''),
      (''location'', EStr ''Kenya''),
      (''range'', EStr ''January 2022 - Present''),
      (''url'', EStr ''https://kyu.ac.ke/''),
      (''text1'', EStr ''Responsible for leading Machine learning Club applications utilising Python and JavaScript frameworks and writing integration tests using Pytest and Jest.''),
      (''text2'', EStr ''Integrating applications with CircleCI for automated builds and tests.''),
      (''text3'', EStr ''Documenting steps taken in making an application, testing, and Integrating with CircleCI.'')
    ]
  ]"

definition experienceData_js :: "stmt list" where
  "experienceData_js = [SConst ''experienceData'' experienceData_literal, SExportDefault (EIdent ''experienceData'')]"

subsection \<open>Values and evaluation\<close>

text \<open>
  Values are the language's: \<^verbatim>\<open>undefined\<close>, \<^verbatim>\<open>null\<close>, booleans, numbers, strings,
  arrays and plain objects (an object is the list of its own properties in creation order).
  The fragment has no arithmetic, so a number is carried as an integer and never computed
  with. Values are compared by structure; the identity of the array and object allocated by
  one evaluation is not modelled.
\<close>

datatype jsval =
    VUndefined
  | VNull
  | VBool bool
  | VNum int
  | VStr string
  | VArray "jsval list"
  | VObject "(string \<times> jsval) list"

datatype error =
    ReferenceError string
  | SyntaxError string

type_synonym env = "string \<rightharpoonup> jsval"

text \<open>
  A module's \<^verbatim>\<open>const\<close> names are known before any statement runs. A name of the module
  that has no value yet cannot be read (its temporal dead zone) and hides a global of the
  same name; any other name is looked up among the globals of the host environment.
\<close>

record scope =
  declared :: "string list"
  bound :: env
  globals :: env

definition resolve :: "scope \<Rightarrow> string \<Rightarrow> error + jsval" where
  "resolve sc x =
     (case bound sc x of
        Some v \<Rightarrow> Inr v
      | None \<Rightarrow>
          if x \<in> set (declared sc) then Inl (ReferenceError x)
          else (case globals sc x of
                  Some v \<Rightarrow> Inr v
                | None \<Rightarrow> Inl (ReferenceError x)))"

text \<open>Operands are evaluated left to right; the first error ends the evaluation.\<close>

fun collect :: "(error + 'a) list \<Rightarrow> error + 'a list" where
  "collect [] = Inr []"
| "collect (Inl e # rs) = Inl e"
| "collect (Inr v # rs) = (case collect rs of Inl e \<Rightarrow> Inl e | Inr vs \<Rightarrow> Inr (v # vs))"

text \<open>
  An object literal defines its properties in order. A key written twice keeps the place
  of its first occurrence and the value of its last.
\<close>

fun define_property :: "(string \<times> jsval) list \<Rightarrow> string \<times> jsval \<Rightarrow> (string \<times> jsval) list" where
  "define_property [] kv = [kv]"
| "define_property (p # ps) kv =
     (if fst p = fst kv then (fst p, snd kv) # ps else p # define_property ps kv)"

definition define_properties :: "(string \<times> jsval) list \<Rightarrow> (string \<times> jsval) list" where
  "define_properties kvs = foldl define_property [] kvs"

fun eval_expr :: "scope \<Rightarrow> expr \<Rightarrow> error + jsval" where
  "eval_expr sc (EStr s) = Inr (VStr s)"
| "eval_expr sc (ETemplate s) = Inr (VStr s)"
| "eval_expr sc (EArray es) =
     (case collect (map (eval_expr sc) es) of
        Inl e \<Rightarrow> Inl e
      | Inr vs \<Rightarrow> Inr (VArray vs))"
| "eval_expr sc (EObject ps) =
     (case collect (map (\<lambda>p. case eval_expr sc (snd p) of
                                  Inl e \<Rightarrow> Inl e
                                | Inr v \<Rightarrow> Inr (fst p, v)) ps) of
        Inl e \<Rightarrow> Inl e
      | Inr kvs \<Rightarrow> Inr (VObject (define_properties kvs)))"
| "eval_expr sc (EIdent x) = resolve sc x"

text \<open>
  Evaluating a module: declaring a name twice, or exporting a default twice, is rejected
  before anything runs. Otherwise the statements run in order; \<^verbatim>\<open>export default e\<close>
  exports the value \<^verbatim>\<open>e\<close> has at that point. The result is the module's default export,
  \<^term>\<open>None\<close> when it has none.
\<close>

fun const_names :: "stmt list \<Rightarrow> string list" where
  "const_names [] = []"
| "const_names (SConst x e # ss) = x # const_names ss"
| "const_names (SExportDefault e # ss) = const_names ss"

fun default_exports :: "stmt list \<Rightarrow> expr list" where
  "default_exports [] = []"
| "default_exports (SConst x e # ss) = default_exports ss"
| "default_exports (SExportDefault e # ss) = e # default_exports ss"

fun exec_stmts :: "scope \<Rightarrow> jsval option \<Rightarrow> stmt list \<Rightarrow> error + jsval option" where
  "exec_stmts sc ex [] = Inr ex"
| "exec_stmts sc ex (SConst x e # ss) =
     (case eval_expr sc e of
        Inl err \<Rightarrow> Inl err
      | Inr v \<Rightarrow> exec_stmts (sc\<lparr>bound := (bound sc)(x \<mapsto> v)\<rparr>) ex ss)"
| "exec_stmts sc ex (SExportDefault e # ss) =
     (case eval_expr sc e of
        Inl err \<Rightarrow> Inl err
      | Inr v \<Rightarrow> exec_stmts sc (Some v) ss)"

definition eval_module :: "env \<Rightarrow> stmt list \<Rightarrow> error + jsval option" where
  "eval_module g m =
     (if \<not> distinct (const_names m) then Inl (SyntaxError ''Identifier has already been declared'')
      else if 1 < length (default_exports m) then Inl (SyntaxError ''Duplicate export of default'')
      else exec_stmts \<lparr>declared = const_names m, bound = Map.empty, globals = g\<rparr> None m)"

subsection \<open>Reading the exported data\<close>

text \<open>
  The value a literal denotes by itself, with no scope to look anything up in: defined
  exactly when the expression contains no identifier reference.
\<close>

fun literal_value :: "expr \<Rightarrow> jsval option" where
  "literal_value (EStr s) = Some (VStr s)"
| "literal_value (ETemplate s) = Some (VStr s)"
| "literal_value (EArray es) = map_option VArray (those (map literal_value es))"
| "literal_value (EObject ps) =
     map_option (\<lambda>kvs. VObject (define_properties kvs))
       (those (map (\<lambda>p. map_option (Pair (fst p)) (literal_value (snd p))) ps))"
| "literal_value (EIdent x) = None"

fun is_literal :: "expr \<Rightarrow> bool" where
  "is_literal (EStr s) = True"
| "is_literal (ETemplate s) = True"
| "is_literal (EArray es) = list_all is_literal es"
| "is_literal (EObject ps) = list_all (\<lambda>p. is_literal (snd p)) ps"
| "is_literal (EIdent x) = False"

text \<open>
  A data module is one \<^verbatim>\<open>const\<close> declaration bound to an array literal of literals,
  followed by the default export of that name, and nothing else.
\<close>

fun data_module :: "stmt list \<Rightarrow> bool" where
  "data_module [SConst x (EArray es), SExportDefault (EIdent y)] = (x = y \<and> list_all is_literal es)"
| "data_module m = False"

definition declares :: "string \<Rightarrow> stmt list \<Rightarrow> bool" where
  "declares x m = (x \<in> set (const_names m))"

text \<open>The elements of an exported array; no elements when the export is anything else.\<close>

fun exported_elements :: "error + jsval option \<Rightarrow> jsval list" where
  "exported_elements (Inr (Some (VArray vs))) = vs"
| "exported_elements r = []"

text \<open>An own property of an object, as \<^verbatim>\<open>Object.hasOwn\<close> and a property read would find it.\<close>

fun get_property :: "string \<Rightarrow> jsval \<Rightarrow> jsval option" where
  "get_property k (VObject kvs) = map_of kvs k"
| "get_property k v = None"

fun own_keys :: "jsval \<Rightarrow> string list" where
  "own_keys (VObject kvs) = map fst kvs"
| "own_keys v = []"

fun is_string :: "jsval \<Rightarrow> bool" where
  "is_string (VStr s) = True"
| "is_string v = False"

text \<open>
  A plain object whose own properties are exactly the given keys, in that order, each
  holding a string.
\<close>

fun string_record :: "string list \<Rightarrow> jsval \<Rightarrow> bool" where
  "string_record ks (VObject kvs) = (map fst kvs = ks \<and> list_all (\<lambda>kv. is_string (snd kv)) kvs)"
| "string_record ks v = False"

text \<open>The string a property holds; \<^term>\<open>None\<close> when it is missing or not a string.\<close>

definition string_property :: "string \<Rightarrow> jsval \<Rightarrow> string option" where
  "string_property k v =
     (case get_property k v of
        Some (VStr s) \<Rightarrow> Some s
      | _ \<Rightarrow> None)"

definition property_starts_with :: "string \<Rightarrow> string \<Rightarrow> jsval \<Rightarrow> bool" where
  "property_starts_with k pre v =
     (case string_property k v of
        Some s \<Rightarrow> s \<noteq> [] \<and> prefix pre s
      | None \<Rightarrow> False)"

definition js_modules :: "stmt list list" where
  "js_modules = [projectsData_js, experienceData_js]"

section \<open>The markdown documents\<close>

text \<open>
  Seven markdown documents: six blog posts and the author profile. Two are named in the
  repository (\<^verbatim>\<open>src/data/blog/creating-an-NFT.md\<close> and
  \<^verbatim>\<open>src/data/blog/microservices-with-go-and-rabbitmq.md\<close>), the profile is
  \<^verbatim>\<open>src/data/authors/default.md\<close>, and four come from files whose names are not known
  (\<^verbatim>\<open>part_000\<close>, which holds two documents, \<^verbatim>\<open>part_001\<close> and \<^verbatim>\<open>part_002\<close>).

  A document is the list of its lines. Each is given by its first fifteen lines: they hold
  the whole front-matter block and the opening of the body, which is all that is read
  below. The rest of each body, with its fenced examples in Solidity, Go and Python, is
  not represented, and nothing below speaks about it. Two bodies that differ within these
  lines differ as wholes; two that agree on them need not be equal
  (\<^verbatim>\<open>src/data/blog/creating-an-NFT.md\<close> and the first document of \<^verbatim>\<open>part_000\<close>
  agree on their first fifteen lines and differ from line 22 on).
\<close>

text \<open>\<^verbatim>\<open>src/data/blog/creating-an-NFT.md\<close>, lines 1 to 15.\<close>

definition creating_an_NFT_md :: "string list" where
  "creating_an_NFT_md = [
    ''---'',
    ''title: 'How to Deploy Tokens (NFTs) on the Ethereum Network'' @ [CHR 0x27],
    ''description: 'A step-by-step guide to deploying Non-Fungible Tokens (NFTs) on the Ethereum Network.'' @ [CHR 0x27],
    ''date: '2023-07-03'' @ [CHR 0x27],
    ''tags: ['Blockchain', 'Ethereum', 'NFTs']'',
    ''---'',
    '''',
    ''# Introduction'',
    '''',
    ''Non-Fungible Tokens (NFTs) have become a popular topic in the blockchain community. They offer a way to prove ownership of a piece of digital content on the blockchain. In this guide, we'll go through the steps to deploy an NFT on the Ethereum network.'',
    '''',
    ''# Prerequisites'',
    '''',
    ''Before we start, you'll need the following:'',
    ''''
  ]"

text \<open>\<^verbatim>\<open>src/data/blog/microservices-with-go-and-rabbitmq.md\<close>, lines 1 to 15.\<close>

definition microservices_with_go_and_rabbitmq_md :: "string list" where
  "microservices_with_go_and_rabbitmq_md = [
    ''---'',
    ''title: Implementing Simple Microservices with Go and RabbitMQ in eCommerce'',
    ''date: '2023-05-23'' @ [CHR 0x27],
    ''tags: ['Go', 'Node.js', 'Docker', 'RabbitMQ', 'Microservices']'',
    ''draft: false'',
    ''summary: 'Implementation of a microservice architecture for an using eCommerce platform using Go, RabbitMQ, and Docker.'' @ [CHR 0x27],
    ''---'',
    '''',
    ''# Introduction'',
    '''',
    ''Microservices architecture has seen a rapid rise in popularity among developers and businesses alike, due to the flexibility and scalability it provides, as compared to traditional monolithic architectures. In the context of an eCommerce platform, microservices can streamline development, facilitate team collaboration, and simplify the process of scaling or updating individual components.'',
    '''',
    ''In this tutorial, we'll walk through the process of creating a microservice-oriented eCommerce platform using Go, RabbitMQ, and Docker. Our platform will consist of two primary services: 'product' and 'order'.'',
    '''',
    ''RabbitMQ is an open-source message broker that enables loosely coupled communication between microservices. We'll delve deeper into RabbitMQ's role as we progress.''
  ]"

text \<open>The first document of \<^verbatim>\<open>part_000\<close>: lines 1 to 15 of the file.\<close>

definition part_000_first_md :: "string list" where
  "part_000_first_md = [
    ''---'',
    ''title: 'How to Deploy Tokens (NFTs) on the Ethereum Network'' @ [CHR 0x27],
    ''description: 'A step-by-step guide to deploying Non-Fungible Tokens (NFTs) on the Ethereum Network.'' @ [CHR 0x27],
    ''date: '2023-07-03'' @ [CHR 0x27],
    ''tags: ['Blockchain', 'Ethereum', 'NFTs']'',
    ''---'',
    '''',
    ''# Introduction'',
    '''',
    ''Non-Fungible Tokens (NFTs) have become a popular topic in the blockchain community. They offer a way to prove ownership of a piece of digital content on the blockchain. In this guide, we'll go through the steps to deploy an NFT on the Ethereum network.'',
    '''',
    ''# Prerequisites'',
    '''',
    ''Before we start, you'll need the following:'',
    ''''
  ]"

text \<open>The second document of \<^verbatim>\<open>part_000\<close>, which starts on line 50 of the file, after the mark that
  separates the two: lines 50 to 64 of the file.\<close>

definition part_000_second_md :: "string list" where
  "part_000_second_md = [
    ''---'',
    ''title: AutoML and Neural Architecture Search. '',
    ''date: '2023-07-06'' @ [CHR 0x27],
    ''tags: ['ML', 'AI', 'Deep Learning']'',
    ''draft: false'',
    ''summary: 'This blog explores AutoML and NAS, critical in optimizing machine learning. .'' @ [CHR 0x27],
    ''---'',
    '''',
    ''## Introduction'',
    '''',
    ''Automated Machine Learning (AutoML) is a fast-evolving subfield of artificial intelligence that simplifies the application of machine learning. It automates the entire machine learning pipeline, including data preprocessing, feature selection, model selection, and hyperparameter tuning. This technology reduces the time and expertise needed to design efficient models, making machine learning more accessible to non-experts.'',
    '''',
    ''Within AutoML lies Neural Architecture Search (NAS), a specific area focused on the automated design of neural network architectures. NAS eliminates the laborious process of manual architecture design and tuning, using optimization methods to discover the most suitable architecture for a given task and dataset. With its potential to outperform manual designs, NAS paves the way for more innovative applications and accelerates scientific progress.'',
    '''',
    ''## Part 1: A Primer on Automated Machine Learning (AutoML)''
  ]"

text \<open>\<^verbatim>\<open>part_001\<close>, lines 1 to 15.\<close>

definition part_001_md :: "string list" where
  "part_001_md = [
    ''---'',
    ''title: AutoML and Neural Architecture Search.'',
    ''date: '2023-07-06'' @ [CHR 0x27],
    ''tags: ['ML', 'AI', 'Deep Learning']'',
    ''draft: false'',
    ''summary: 'This blog explores AutoML and NAS, critical in optimizing machine learning.'' @ [CHR 0x27],
    ''---'',
    '''',
    ''## Introduction'',
    '''',
    ''Automated Machine Learning (AutoML) is a fast-evolving subfield of artificial intelligence that simplifies the application of machine learning. It automates the entire machine learning pipeline, including data preprocessing, feature selection, model selection, and hyperparameter tuning. This technology reduces the time and expertise needed to design efficient models, making machine learning more accessible to non-experts.'',
    '''',
    ''Within AutoML lies Neural Architecture Search (NAS), a specific area focused on the automated design of neural network architectures. NAS eliminates the laborious process of manual architecture design and tuning, using optimization methods to discover the most suitable architecture for a given task and dataset. With its potential to outperform manual designs, NAS paves the way for more innovative applications and accelerates scientific progress.'',
    '''',
    ''# Part 1: A Primer on Automated Machine Learning (AutoML)''
  ]"

text \<open>\<^verbatim>\<open>part_002\<close>, lines 1 to 15.\<close>

definition part_002_md :: "string list" where
  "part_002_md = [
    ''---'',
    ''title: An In-Depth Exploration of Data Analysis - Mechanisms of Data Ingestion'',
    ''date: '2023-06-04'' @ [CHR 0x27],
    ''tags: ['Python', 'Data analysis', 'Pandas' 'Data ingestion', 'Data Engineering']'',
    ''draft: false'',
    ''summary: 'technical overview of data ingestion from diverse sources, such as file systems and databases, employing the Python data manipulation library, pandas.'' @ [CHR 0x27],
    ''---'',
    '''',
    ''Originally posted on [creds ~ DevElie](https://twitter.com/dev_elie). [Lux Tech Academy blog.](https://dev.to/luxacademy/intro-to-data-analysis-data-reading-2ncp)'',
    '''',
    ''In our modern era characterized by continuous technological evolution, data indisputably reigns supreme as the primary asset for institutions, organizations, and diverse entities. Consequently, the exigency to harness and manipulate the troves of data accessible has become paramount to drive meaningful changes.'',
    '''',
    ''Data analytics, an integral subset of data science, is a discipline that concentrates on the transformation and statistical analysis of existing data sets. It places an emphasis on the establishment of robust methods for data capture and organization, with the overarching aim to extrapolate actionable insights that could address prevailing issues, and to identify the most effective means to present and communicate the derived data.'',
    '''',
    ''Data analysis is a specific branch of data analytics that is routinely applied in commercial settings to scrutinize data and infer valuable conclusions. The methodology underpinning data analysis involves several stages: data gathering, data cleaning, data examination, and data interpretation, all orchestrated to ensure comprehensive understanding of the messages relayed by the data.''
  ]"

text \<open>\<^verbatim>\<open>src/data/authors/default.md\<close>, lines 1 to 15.\<close>

definition default_md :: "string list" where
  "default_md = [
    ''---'',
    ''name: Anthony Chege'',
    ''avatar: /static/images/ondiek.png'',
    ''occupation: Machine Learning Engineer, Smart Contract Developer & Technical Writer'',
    ''company:'',
    ''email: anthonychege599@gmail.com'',
    ''twitter: https://twitter.com/Tonycodh'',
    ''linkedin: https://www.linkedin.com/in/anthony-chege-383893227/'',
    ''github: https://github.com/chegeanthony'',
    ''---'',
    '''',
    ''Hello World!I am **Anthony Chege**. a passionate **Machine Learning engineer**,an innovative **Smart Contract Developer** and a proficient **Technical writer**.'',
    '''',
    ''As a dynamic participant in the tech space, I've made substantial contributions to the community through my engagement as a Microsoft Student Ambassador, GDSC Lead, and AWS Community Builder. Further, I actively disseminate my knowledge as a contributing author for [Educative Inc](https://www.educative.io/), [Dev.to](https://dev.to/) and [Medium](https://medium.com/). My core aim through these platforms is to inspire individuals and empower them to evolve within the technology landscape.'',
    ''''
  ]"

definition markdown_documents :: "string list list" where
  "markdown_documents =
     [creating_an_NFT_md, microservices_with_go_and_rabbitmq_md, part_000_first_md,
      part_000_second_md, part_001_md, part_002_md, default_md]"

subsection \<open>Front matter\<close>

text \<open>
  The front matter is YAML, and the renderer that reads it is not part of the repository.
  The reader below is the part of that notation the documents are written in: the block
  opens with a line \<^verbatim>\<open>---\<close> at the top of the file and ends at the next such line;
  every line inside is \<^verbatim>\<open>key: value\<close>, where the value is empty, \<^verbatim>\<open>true\<close> or
  \<^verbatim>\<open>false\<close>, a single-quoted scalar (a quote inside is doubled), a plain scalar
  (surrounding blanks dropped), or a flow sequence \<^verbatim>\<open>[item, item, ...]\<close> of scalars
  separated by commas. Comments, block scalars and nested mappings do not occur in the
  documents and are not read: a plain scalar containing \<^verbatim>\<open>: \<close> or \<^verbatim>\<open> #\<close> is
  refused. A value that is not well formed reads as \<^term>\<open>None\<close>.
\<close>

definition split_front_matter :: "string list \<Rightarrow> (string list \<times> string list) option" where
  "split_front_matter ls =
     (case ls of
        [] \<Rightarrow> None
      | l # rest \<Rightarrow>
          if l = ''---'' then
            (case dropWhile (\<lambda>x. x \<noteq> ''---'') rest of
               [] \<Rightarrow> None
             | d # body \<Rightarrow> Some (takeWhile (\<lambda>x. x \<noteq> ''---'') rest, body))
          else None)"

definition body_of :: "string list \<Rightarrow> string list option" where
  "body_of ls = map_option snd (split_front_matter ls)"

datatype yaml =
    YNull
  | YBool bool
  | YStr string
  | YSeq "string list"

definition trim :: "string \<Rightarrow> string" where
  "trim s = rev (dropWhile (\<lambda>c. c = CHR '' '') (rev (dropWhile (\<lambda>c. c = CHR '' '') s)))"

fun contains :: "string \<Rightarrow> string \<Rightarrow> bool" where
  "contains w [] = (w = [])"
| "contains w (c # cs) = (prefix w (c # cs) \<or> contains w cs)"

text \<open>
  The key of a line ends at the first colon that is followed by a blank or ends the line.
\<close>

fun split_field :: "string \<Rightarrow> string \<Rightarrow> (string \<times> string) option" where
  "split_field k [] = None"
| "split_field k [c] = (if c = CHR '':'' \<and> k \<noteq> [] then Some (rev k, []) else None)"
| "split_field k (c # d # cs) =
     (if c = CHR '':'' \<and> d = CHR '' '' then (if k = [] then None else Some (rev k, cs))
      else split_field (c # k) (d # cs))"

text \<open>
  A single-quoted scalar, read from just after its opening quote: the text up to the
  closing quote, and what follows it.
\<close>

fun quoted :: "string \<Rightarrow> string \<Rightarrow> (string \<times> string) option" where
  "quoted acc [] = None"
| "quoted acc [c] = (if c = CHR 0x27 then Some (rev acc, []) else None)"
| "quoted acc (c # d # cs) =
     (if c = CHR 0x27 then
        (if d = CHR 0x27 then quoted (CHR 0x27 # acc) cs else Some (rev acc, d # cs))
      else quoted (c # acc) (d # cs))"

definition plain_scalar :: "string \<Rightarrow> string option" where
  "plain_scalar v =
     (if v = [] \<or> hd v \<in> set ''[]{},#&*!|>%@`'' \<or> hd v = CHR 0x22 \<or> hd v = CHR 0x27
         \<or> contains '': '' v \<or> contains '' #'' v \<or> last v = CHR '':''
      then None else Some v)"

text \<open>
  A flow sequence, read from just after its opening bracket, one character at a time.
  After an item only blanks, a comma or the closing bracket may follow; after the closing
  bracket only blanks.
\<close>

datatype flow_state =
    ItemStart
  | InQuoted string
  | InPlain string
  | ItemEnd
  | Closed

fun flow_seq :: "flow_state \<Rightarrow> string list \<Rightarrow> string \<Rightarrow> string list option" where
  "flow_seq Closed items [] = Some (rev items)"
| "flow_seq st items [] = None"
| "flow_seq ItemStart items (c # cs) =
     (if c = CHR '' '' then flow_seq ItemStart items cs
      else if c = CHR '']'' then flow_seq Closed items cs
      else if c = CHR 0x27 then flow_seq (InQuoted []) items cs
      else if c \<in> set ''[{},#&*!|>%@`'' \<or> c = CHR 0x22 then None
      else flow_seq (InPlain [c]) items cs)"
| "flow_seq (InQuoted acc) items (c # cs) =
     (if c = CHR 0x27 then
        (case cs of
           [] \<Rightarrow> None
         | d # ds \<Rightarrow>
             if d = CHR 0x27 then flow_seq (InQuoted (CHR 0x27 # acc)) items ds
             else flow_seq ItemEnd (rev acc # items) cs)
      else flow_seq (InQuoted (c # acc)) items cs)"
| "flow_seq (InPlain acc) items (c # cs) =
     (if c = CHR '','' then flow_seq ItemStart (trim (rev acc) # items) cs
      else if c = CHR '']'' then flow_seq Closed (trim (rev acc) # items) cs
      else if c \<in> set ''[{}'' then None
      else flow_seq (InPlain (c # acc)) items cs)"
| "flow_seq ItemEnd items (c # cs) =
     (if c = CHR '' '' then flow_seq ItemEnd items cs
      else if c = CHR '','' then flow_seq ItemStart items cs
      else if c = CHR '']'' then flow_seq Closed items cs
      else None)"
| "flow_seq Closed items (c # cs) =
     (if c = CHR '' '' then flow_seq Closed items cs else None)"

definition parse_value :: "string \<Rightarrow> yaml option" where
  "parse_value raw =
     (case trim raw of
        [] \<Rightarrow> Some YNull
      | c # cs \<Rightarrow>
          if c = CHR ''['' then map_option YSeq (flow_seq ItemStart [] cs)
          else if c = CHR 0x27 then
            (case quoted [] cs of
               None \<Rightarrow> None
             | Some (s, rest) \<Rightarrow> if trim rest = [] then Some (YStr s) else None)
          else if c # cs = ''true'' then Some (YBool True)
          else if c # cs = ''false'' then Some (YBool False)
          else map_option YStr (plain_scalar (c # cs)))"

text \<open>
  The lines of the block as keys with their unread values, and the block as read: every
  line must be a field with a well-formed value, and no key may occur twice.
\<close>

definition raw_fields :: "string list \<Rightarrow> (string \<times> string) list option" where
  "raw_fields ls =
     (case split_front_matter ls of
        None \<Rightarrow> None
      | Some (block, body) \<Rightarrow> those (map (split_field []) block))"

definition raw_field :: "string \<Rightarrow> string list \<Rightarrow> string option" where
  "raw_field k ls =
     (case raw_fields ls of
        None \<Rightarrow> None
      | Some kvs \<Rightarrow> map_of kvs k)"

definition field_value :: "string \<Rightarrow> string list \<Rightarrow> yaml option" where
  "field_value k ls =
     (case raw_field k ls of
        None \<Rightarrow> None
      | Some raw \<Rightarrow> parse_value raw)"

definition front_matter :: "string list \<Rightarrow> (string \<times> yaml) list option" where
  "front_matter ls =
     (case raw_fields ls of
        None \<Rightarrow> None
      | Some kvs \<Rightarrow>
          if distinct (map fst kvs)
          then those (map (\<lambda>kv. map_option (Pair (fst kv)) (parse_value (snd kv))) kvs)
          else None)"

text \<open>
  The metadata of a blog post: a title and a date that are strings and a list of tags,
  out of a front-matter block that is well formed as a whole.
\<close>

record post_meta =
  title :: string
  date :: string
  tags :: "string list"

definition post_metadata :: "string list \<Rightarrow> post_meta option" where
  "post_metadata ls =
     (case front_matter ls of
        None \<Rightarrow> None
      | Some fm \<Rightarrow>
          (case (map_of fm ''title'', map_of fm ''date'', map_of fm ''tags'') of
             (Some (YStr t), Some (YStr d), Some (YSeq ts)) \<Rightarrow>
               Some \<lparr>title = t, date = d, tags = ts\<rparr>
           | _ \<Rightarrow> None))"

text \<open>
  A single field can be read even where the block as a whole cannot. A document is a blog
  post when its block has a \<^verbatim>\<open>title\<close> line and an author profile when it has a
  \<^verbatim>\<open>name\<close> line and no title.
\<close>

definition field_keys :: "string list \<Rightarrow> string list" where
  "field_keys ls = (case raw_fields ls of None \<Rightarrow> [] | Some kvs \<Rightarrow> map fst kvs)"

definition is_blog_post :: "string list \<Rightarrow> bool" where
  "is_blog_post ls = (''title'' \<in> set (field_keys ls))"

definition is_author_profile :: "string list \<Rightarrow> bool" where
  "is_author_profile ls = (''name'' \<in> set (field_keys ls) \<and> ''title'' \<notin> set (field_keys ls))"

definition blog_posts :: "string list list" where
  "blog_posts = filter is_blog_post markdown_documents"

definition string_field :: "string \<Rightarrow> string list \<Rightarrow> string option" where
  "string_field k ls =
     (case field_value k ls of
        Some (YStr s) \<Rightarrow> Some s
      | _ \<Rightarrow> None)"

definition title_mentions :: "string \<Rightarrow> string list \<Rightarrow> bool" where
  "title_mentions w ls =
     (case string_field ''title'' ls of
        Some t \<Rightarrow> contains w t
      | None \<Rightarrow> False)"

definition has_tag :: "string \<Rightarrow> string list \<Rightarrow> bool" where
  "has_tag t ls =
     (case field_value ''tags'' ls of
        Some (YSeq ts) \<Rightarrow> t \<in> set ts
      | _ \<Rightarrow> False)"

section \<open>Evaluating literals\<close>

lemma collect_map_Inr:
  assumes "\<And>x. x \<in> set xs \<Longrightarrow> f x = Inr (g x)"
  shows "collect (map f xs) = Inr (map g xs)"
  using assms by (induction xs) auto

lemma those_map_Some:
  "those (map f xs) = Some ys \<Longrightarrow> ys = map (\<lambda>x. the (f x)) xs \<and> list_all (\<lambda>x. f x \<noteq> None) xs"
  by (induction xs arbitrary: ys) (auto split: option.splits)

lemma those_map_defined:
  "list_all (\<lambda>x. f x \<noteq> None) xs \<Longrightarrow> those (map f xs) \<noteq> None"
  by (induction xs) (auto split: option.splits)

text \<open>
  A literal evaluates to the value it denotes, whatever the scope: nothing in it is looked
  up.
\<close>

lemma literal_value_eval:
  "literal_value e = Some v \<Longrightarrow> eval_expr sc e = Inr v"
proof (induction e arbitrary: v)
  case (EArray es)
  from EArray.prems obtain vs
    where vs: "those (map literal_value es) = Some vs" and v: "v = VArray vs"
    by auto
  from those_map_Some[OF vs]
  have vs_eq: "vs = map (\<lambda>x. the (literal_value x)) es"
    and defined: "list_all (\<lambda>x. literal_value x \<noteq> None) es"
    by auto
  have "collect (map (eval_expr sc) es) = Inr (map (\<lambda>x. the (literal_value x)) es)"
  proof (rule collect_map_Inr)
    fix x assume x: "x \<in> set es"
    with defined obtain w where "literal_value x = Some w"
      by (auto simp: list_all_iff)
    with EArray.IH[OF x] show "eval_expr sc x = Inr (the (literal_value x))"
      by simp
  qed
  with vs_eq v show ?case by simp
next
  case (EObject ps)
  let ?f = "\<lambda>p. map_option (Pair (fst p)) (literal_value (snd p))"
  from EObject.prems obtain kvs
    where kvs: "those (map ?f ps) = Some kvs" and v: "v = VObject (define_properties kvs)"
    by auto
  from those_map_Some[OF kvs]
  have kvs_eq: "kvs = map (\<lambda>p. the (?f p)) ps"
    and defined: "list_all (\<lambda>p. ?f p \<noteq> None) ps"
    by auto
  have "collect (map (\<lambda>p. case eval_expr sc (snd p) of
                              Inl e \<Rightarrow> Inl e
                            | Inr v \<Rightarrow> Inr (fst p, v)) ps)
        = Inr (map (\<lambda>p. the (?f p)) ps)"
  proof (rule collect_map_Inr)
    fix p assume p: "p \<in> set ps"
    with defined obtain w where w: "literal_value (snd p) = Some w"
      by (auto simp: list_all_iff)
    have "snd p \<in> Basic_BNFs.snds p"
      by (cases p) simp
    from EObject.IH[OF p this w] w
    show "(case eval_expr sc (snd p) of Inl e \<Rightarrow> Inl e | Inr v \<Rightarrow> Inr (fst p, v))
          = Inr (the (?f p))"
      by simp
  qed
  with kvs_eq v show ?case by simp
qed simp_all

lemma is_literal_defined:
  "is_literal e \<Longrightarrow> literal_value e \<noteq> None"
proof (induction e)
  case (EArray es)
  then have "list_all (\<lambda>x. literal_value x \<noteq> None) es"
    by (auto simp: list_all_iff)
  from those_map_defined[OF this] show ?case by simp
next
  case (EObject ps)
  have "list_all (\<lambda>p. map_option (Pair (fst p)) (literal_value (snd p)) \<noteq> None) ps"
    unfolding list_all_iff
  proof
    fix p assume p: "p \<in> set ps"
    have "snd p \<in> Basic_BNFs.snds p"
      by (cases p) simp
    moreover from EObject.prems p have "is_literal (snd p)"
      by (auto simp: list_all_iff)
    ultimately have "literal_value (snd p) \<noteq> None"
      using EObject.IH[OF p] by blast
    then show "map_option (Pair (fst p)) (literal_value (snd p)) \<noteq> None"
      by simp
  qed
  from those_map_defined[OF this] show ?case by simp
qed simp_all

text \<open>
  A data module exports the value its array literal denotes, whatever the globals of the
  host environment are.
\<close>

lemma data_module_shape:
  assumes "data_module m"
  obtains x es where "m = [SConst x (EArray es), SExportDefault (EIdent x)]"
    and "list_all is_literal es"
  using assms by (auto elim!: data_module.elims)

lemma data_module_export:
  assumes "data_module [SConst x e, SExportDefault (EIdent y)]"
  shows "eval_module g [SConst x e, SExportDefault (EIdent y)] = Inr (literal_value e)"
proof -
  from assms obtain es where e: "e = EArray es" and y: "y = x" and lit: "list_all is_literal es"
    by (auto elim!: data_module.elims)
  from lit have "is_literal e"
    by (simp add: e)
  from is_literal_defined[OF this] obtain v where v: "literal_value e = Some v"
    by auto
  have "eval_expr sc e = Inr v" for sc
    by (rule literal_value_eval[OF v])
  then show ?thesis
    by (simp add: eval_module_def resolve_def v y)
qed

lemma data_module_globals:
  assumes "data_module m"
  shows "eval_module g m = eval_module g' m"
proof -
  from assms obtain x es where m: "m = [SConst x (EArray es), SExportDefault (EIdent x)]"
    by (rule data_module_shape)
  from assms show ?thesis
    unfolding m by (simp only: data_module_export)
qed

lemma projectsData_js_data_module: "data_module projectsData_js"
  by (simp add: projectsData_js_def projectsData_literal_def)

lemma experienceData_js_data_module: "data_module experienceData_js"
  by (simp add: experienceData_js_def experienceData_literal_def)

section \<open>Reading the seven documents\<close>

text \<open>The keys of each front-matter block, in the order the lines are written.\<close>

lemma field_keys_creating_an_NFT:
  "field_keys creating_an_NFT_md = [''title'', ''description'', ''date'', ''tags'']"
  by (simp add: field_keys_def raw_fields_def split_front_matter_def creating_an_NFT_md_def)

lemma field_keys_microservices:
  "field_keys microservices_with_go_and_rabbitmq_md
   = [''title'', ''date'', ''tags'', ''draft'', ''summary'']"
  by (simp add: field_keys_def raw_fields_def split_front_matter_def
      microservices_with_go_and_rabbitmq_md_def)

lemma field_keys_part_000_first:
  "field_keys part_000_first_md = [''title'', ''description'', ''date'', ''tags'']"
  by (simp add: field_keys_def raw_fields_def split_front_matter_def part_000_first_md_def)

lemma field_keys_part_000_second:
  "field_keys part_000_second_md = [''title'', ''date'', ''tags'', ''draft'', ''summary'']"
  by (simp add: field_keys_def raw_fields_def split_front_matter_def part_000_second_md_def)

lemma field_keys_part_001:
  "field_keys part_001_md = [''title'', ''date'', ''tags'', ''draft'', ''summary'']"
  by (simp add: field_keys_def raw_fields_def split_front_matter_def part_001_md_def)

lemma field_keys_part_002:
  "field_keys part_002_md = [''title'', ''date'', ''tags'', ''draft'', ''summary'']"
  by (simp add: field_keys_def raw_fields_def split_front_matter_def part_002_md_def)

lemma field_keys_default:
  "field_keys default_md
   = [''name'', ''avatar'', ''occupation'', ''company'', ''email'', ''twitter'', ''linkedin'',
      ''github'']"
  by (simp add: field_keys_def raw_fields_def split_front_matter_def default_md_def)

lemmas field_keys_documents =
  field_keys_creating_an_NFT field_keys_microservices field_keys_part_000_first
  field_keys_part_000_second field_keys_part_001 field_keys_part_002 field_keys_default

lemma blog_posts_are:
  "blog_posts =
     [creating_an_NFT_md, microservices_with_go_and_rabbitmq_md, part_000_first_md,
      part_000_second_md, part_001_md, part_002_md]"
  by (simp add: blog_posts_def markdown_documents_def is_blog_post_def field_keys_documents)

text \<open>The metadata of the five posts whose front matter is well formed.\<close>

lemmas read_front_matter =
  post_metadata_def front_matter_def raw_fields_def split_front_matter_def parse_value_def
  plain_scalar_def trim_def

lemma post_metadata_creating_an_NFT:
  "post_metadata creating_an_NFT_md
   = Some \<lparr>title = ''How to Deploy Tokens (NFTs) on the Ethereum Network'',
            date = ''2023-07-03'',
            tags = [''Blockchain'', ''Ethereum'', ''NFTs'']\<rparr>"
  by (simp add: read_front_matter creating_an_NFT_md_def)

lemma post_metadata_microservices:
  "post_metadata microservices_with_go_and_rabbitmq_md
   = Some \<lparr>title = ''Implementing Simple Microservices with Go and RabbitMQ in eCommerce'',
            date = ''2023-05-23'',
            tags = [''Go'', ''Node.js'', ''Docker'', ''RabbitMQ'', ''Microservices'']\<rparr>"
  by (simp add: read_front_matter microservices_with_go_and_rabbitmq_md_def)

lemma post_metadata_part_000_first:
  "post_metadata part_000_first_md
   = Some \<lparr>title = ''How to Deploy Tokens (NFTs) on the Ethereum Network'',
            date = ''2023-07-03'',
            tags = [''Blockchain'', ''Ethereum'', ''NFTs'']\<rparr>"
  by (simp add: read_front_matter part_000_first_md_def)

lemma post_metadata_part_000_second:
  "post_metadata part_000_second_md
   = Some \<lparr>title = ''AutoML and Neural Architecture Search.'',
            date = ''2023-07-06'',
            tags = [''ML'', ''AI'', ''Deep Learning'']\<rparr>"
  by (simp add: read_front_matter part_000_second_md_def)

lemma post_metadata_part_001:
  "post_metadata part_001_md
   = Some \<lparr>title = ''AutoML and Neural Architecture Search.'',
            date = ''2023-07-06'',
            tags = [''ML'', ''AI'', ''Deep Learning'']\<rparr>"
  by (simp add: read_front_matter part_001_md_def)

text \<open>The data-ingestion post: its title and date read as strings, its tags do not read.\<close>

lemma raw_tags_part_002:
  "raw_field ''tags'' part_002_md
   = Some ''['Python', 'Data analysis', 'Pandas' 'Data ingestion', 'Data Engineering']''"
  by (simp add: raw_field_def raw_fields_def split_front_matter_def part_002_md_def)

lemma title_part_002:
  "string_field ''title'' part_002_md
   = Some ''An In-Depth Exploration of Data Analysis - Mechanisms of Data Ingestion''"
  by (simp add: string_field_def field_value_def raw_field_def raw_fields_def
      split_front_matter_def parse_value_def plain_scalar_def trim_def part_002_md_def)

lemma date_part_002:
  "string_field ''date'' part_002_md = Some ''2023-06-04''"
  by (simp add: string_field_def field_value_def raw_field_def raw_fields_def
      split_front_matter_def parse_value_def plain_scalar_def trim_def part_002_md_def)

section \<open>The exported arrays\<close>

lemma projectsData_export:
  "eval_module g projectsData_js = Inr (literal_value projectsData_literal)"
  using projectsData_js_data_module
  unfolding projectsData_js_def by (rule data_module_export)

lemma experienceData_export:
  "eval_module g experienceData_js = Inr (literal_value experienceData_literal)"
  using experienceData_js_data_module
  unfolding experienceData_js_def by (rule data_module_export)

text \<open>
  Claim C1. The default export of \<^verbatim>\<open>src/data/projectsData.js\<close> is the array its
  literal denotes, ten elements long, and the default export of the \<^verbatim>\<open>experienceData\<close>
  module is the array its literal denotes, three elements long: evaluating either module
  resolves the exported name to the declared constant and changes nothing in the array.
  This holds under any globals \<open>g\<close>, \<open>g'\<close> of the host environment.
\<close>

theorem default_exports_are_the_array_literals:
  "eval_module g projectsData_js = Inr (literal_value projectsData_literal)
   \<and> length (exported_elements (eval_module g projectsData_js)) = 10
   \<and> eval_module g' experienceData_js = Inr (literal_value experienceData_literal)
   \<and> length (exported_elements (eval_module g' experienceData_js)) = 3"
proof -
  have "length (exported_elements (Inr (literal_value projectsData_literal))) = 10"
    by (simp add: projectsData_literal_def)
  moreover have "length (exported_elements (Inr (literal_value experienceData_literal))) = 3"
    by (simp add: experienceData_literal_def)
  ultimately show ?thesis
    by (simp only: projectsData_export experienceData_export simp_thms)
qed

text \<open>
  Claim C3. Every one of the ten elements of the exported \<^verbatim>\<open>projectsData\<close> array is a plain
  object whose properties are exactly \<^verbatim>\<open>title\<close>, \<^verbatim>\<open>description\<close>, \<^verbatim>\<open>imgSrc\<close> and
  \<^verbatim>\<open>href\<close>, each holding a string; every one of the three elements of the exported
  \<^verbatim>\<open>experienceData\<close> array is a plain object whose properties are exactly \<^verbatim>\<open>title\<close>,
  \<^verbatim>\<open>company\<close>, \<^verbatim>\<open>location\<close>, \<^verbatim>\<open>range\<close>, \<^verbatim>\<open>url\<close>, \<^verbatim>\<open>text1\<close>, \<^verbatim>\<open>text2\<close> and
  \<^verbatim>\<open>text3\<close>, each holding a string. So no property holds a number, an array, an object,
  \<^verbatim>\<open>null\<close> or \<^verbatim>\<open>undefined\<close>.
\<close>

theorem elements_are_records_of_strings:
  "list_all (string_record [''title'', ''description'', ''imgSrc'', ''href''])
     (exported_elements (eval_module g projectsData_js))
   \<and> length (exported_elements (eval_module g projectsData_js)) = 10
   \<and> list_all
       (string_record
          [''title'', ''company'', ''location'', ''range'', ''url'', ''text1'', ''text2'', ''text3''])
       (exported_elements (eval_module g' experienceData_js))
   \<and> length (exported_elements (eval_module g' experienceData_js)) = 3"
proof -
  have "list_all (string_record [''title'', ''description'', ''imgSrc'', ''href''])
          (exported_elements (Inr (literal_value projectsData_literal)))
        \<and> length (exported_elements (Inr (literal_value projectsData_literal))) = 10"
    by (simp add: projectsData_literal_def define_properties_def)
  moreover have "list_all
          (string_record
             [''title'', ''company'', ''location'', ''range'', ''url'', ''text1'', ''text2'',
              ''text3''])
          (exported_elements (Inr (literal_value experienceData_literal)))
        \<and> length (exported_elements (Inr (literal_value experienceData_literal))) = 3"
    by (simp add: experienceData_literal_def define_properties_def)
  ultimately show ?thesis
    by (simp only: projectsData_export experienceData_export simp_thms)
qed

text \<open>
  Claim C7. In every element of the exported \<^verbatim>\<open>projectsData\<close> array, \<^verbatim>\<open>href\<close> is a
  non-empty string that begins with \<^verbatim>\<open>https://\<close> and \<^verbatim>\<open>imgSrc\<close> is a non-empty string
  that begins with \<^verbatim>\<open>/static/images/\<close>; in every element of the exported
  \<^verbatim>\<open>experienceData\<close> array, \<^verbatim>\<open>url\<close> is a non-empty string that begins with
  \<^verbatim>\<open>https://\<close>. The arrays have ten and three elements.
\<close>

theorem links_are_absolute_and_images_are_site_paths:
  "list_all (property_starts_with ''href'' ''https://'')
     (exported_elements (eval_module g projectsData_js))
   \<and> list_all (property_starts_with ''imgSrc'' ''/static/images/'')
       (exported_elements (eval_module g projectsData_js))
   \<and> length (exported_elements (eval_module g projectsData_js)) = 10
   \<and> list_all (property_starts_with ''url'' ''https://'')
       (exported_elements (eval_module g' experienceData_js))
   \<and> length (exported_elements (eval_module g' experienceData_js)) = 3"
proof -
  have "list_all (property_starts_with ''href'' ''https://'')
          (exported_elements (Inr (literal_value projectsData_literal)))"
    by (simp add: projectsData_literal_def define_properties_def property_starts_with_def
        string_property_def)
  moreover have "list_all (property_starts_with ''imgSrc'' ''/static/images/'')
          (exported_elements (Inr (literal_value projectsData_literal)))"
    by (simp add: projectsData_literal_def define_properties_def property_starts_with_def
        string_property_def)
  moreover have "length (exported_elements (Inr (literal_value projectsData_literal))) = 10"
    by (simp add: projectsData_literal_def)
  moreover have "list_all (property_starts_with ''url'' ''https://'')
          (exported_elements (Inr (literal_value experienceData_literal)))"
    by (simp add: experienceData_literal_def define_properties_def property_starts_with_def
        string_property_def)
  moreover have "length (exported_elements (Inr (literal_value experienceData_literal))) = 3"
    by (simp add: experienceData_literal_def)
  ultimately show ?thesis
    by (simp only: projectsData_export experienceData_export simp_thms)
qed

text \<open>
  Claim C9. The ten elements of the exported \<^verbatim>\<open>projectsData\<close> array all have a string
  \<^verbatim>\<open>title\<close>, and these ten titles are pairwise distinct.
\<close>

theorem project_titles_are_distinct:
  "distinct (map (string_property ''title'') (exported_elements (eval_module g projectsData_js)))
   \<and> list_all (\<lambda>v. string_property ''title'' v \<noteq> None)
       (exported_elements (eval_module g projectsData_js))
   \<and> length (exported_elements (eval_module g projectsData_js)) = 10"
proof -
  have "map (string_property ''title'') (exported_elements (Inr (literal_value projectsData_literal)))
        = [Some ''NFT Collection'', Some ''ARM  robot in Matlab'',
           Some ''AWS Serverless Expense Tracker API'', Some ''Social Media API'',
           Some ''Bookmarks Manager API'', Some ''Threaded Replies App'', Some ''Olycoin'',
           Some ''Nft Marker place Website'', Some ''Olyix Technologies Website'',
           Some ''Kodeec Website'']"
    by (simp add: projectsData_literal_def define_properties_def string_property_def)
  moreover have "list_all (\<lambda>v. string_property ''title'' v \<noteq> None)
          (exported_elements (Inr (literal_value projectsData_literal)))"
    by (simp add: projectsData_literal_def define_properties_def string_property_def)
  moreover have "length (exported_elements (Inr (literal_value projectsData_literal))) = 10"
    by (simp add: projectsData_literal_def)
  ultimately show ?thesis
    by (simp add: projectsData_export)
qed

text \<open>
  Claim C6. Two evaluations of \<^verbatim>\<open>src/data/projectsData.js\<close>, under any two sets of
  globals, both succeed and export equal arrays, and so do two evaluations of the
  \<^verbatim>\<open>experienceData\<close> module: the export does not depend on the environment the module
  is evaluated in. Equality is equality of contents; each evaluation allocates its own
  array.
\<close>

theorem exports_do_not_depend_on_the_environment:
  "eval_module g1 projectsData_js = eval_module g2 projectsData_js
   \<and> length (exported_elements (eval_module g1 projectsData_js)) = 10
   \<and> eval_module g1' experienceData_js = eval_module g2' experienceData_js
   \<and> length (exported_elements (eval_module g1' experienceData_js)) = 3"
proof -
  have "length (exported_elements (Inr (literal_value projectsData_literal))) = 10"
    by (simp add: projectsData_literal_def)
  moreover have "length (exported_elements (Inr (literal_value experienceData_literal))) = 3"
    by (simp add: experienceData_literal_def)
  ultimately show ?thesis
    using data_module_globals[OF projectsData_js_data_module, of g1 g2]
      data_module_globals[OF experienceData_js_data_module, of g1' g2']
    by (simp add: projectsData_export experienceData_export)
qed

section \<open>The blog posts\<close>

text \<open>
  Claim C4, at the data-ingestion post (\<^verbatim>\<open>part_002\<close>). The document is a blog post whose
  block has a title and a date that read as strings, but the value of its \<^verbatim>\<open>tags\<close> line
  is not a well-formed list: a comma is missing between \<^verbatim>\<open>'Pandas'\<close> and
  \<^verbatim>\<open>'Data ingestion'\<close>. The field does not read, and neither does the block.
\<close>

theorem data_ingestion_tags_are_malformed:
  "part_002_md \<in> set blog_posts
   \<and> raw_field ''tags'' part_002_md
       = Some ''['Python', 'Data analysis', 'Pandas' 'Data ingestion', 'Data Engineering']''
   \<and> field_value ''tags'' part_002_md = None
   \<and> front_matter part_002_md = None
   \<and> post_metadata part_002_md = None"
proof -
  have tags: "field_value ''tags'' part_002_md = None"
    by (simp add: field_value_def raw_tags_part_002 parse_value_def trim_def)
  have block: "front_matter part_002_md = None"
    by (simp add: front_matter_def raw_fields_def split_front_matter_def parse_value_def
        plain_scalar_def trim_def part_002_md_def)
  then have "post_metadata part_002_md = None"
    by (simp add: post_metadata_def)
  with tags block show ?thesis
    by (simp add: blog_posts_are raw_tags_part_002)
qed

text \<open>
  Claim C5. Among the blog posts there is one tagged \<^verbatim>\<open>Blockchain\<close> and \<^verbatim>\<open>NFTs\<close> whose
  title mentions NFTs, one whose title mentions AutoML, one tagged \<^verbatim>\<open>Microservices\<close>
  whose title mentions microservices, and one whose title mentions data ingestion. Exactly
  one markdown document is an author profile, exactly one module declares
  \<^verbatim>\<open>experienceData\<close> and exactly one declares \<^verbatim>\<open>projectsData\<close>.
\<close>

theorem content_covers_the_stated_topics:
  "list_ex (\<lambda>d. has_tag ''Blockchain'' d \<and> has_tag ''NFTs'' d \<and> title_mentions ''NFTs'' d) blog_posts
   \<and> list_ex (title_mentions ''AutoML'') blog_posts
   \<and> list_ex (\<lambda>d. has_tag ''Microservices'' d \<and> title_mentions ''Microservices'' d) blog_posts
   \<and> list_ex (title_mentions ''Data Ingestion'') blog_posts
   \<and> length (filter is_author_profile markdown_documents) = 1
   \<and> length (filter (declares ''experienceData'') js_modules) = 1
   \<and> length (filter (declares ''projectsData'') js_modules) = 1"
proof -
  have nft: "has_tag ''Blockchain'' creating_an_NFT_md \<and> has_tag ''NFTs'' creating_an_NFT_md
      \<and> title_mentions ''NFTs'' creating_an_NFT_md"
    by (simp add: has_tag_def title_mentions_def string_field_def field_value_def raw_field_def
        raw_fields_def split_front_matter_def parse_value_def plain_scalar_def trim_def
        creating_an_NFT_md_def)
  have automl: "title_mentions ''AutoML'' part_001_md"
    by (simp add: title_mentions_def string_field_def field_value_def raw_field_def
        raw_fields_def split_front_matter_def parse_value_def plain_scalar_def trim_def
        part_001_md_def)
  have micro: "has_tag ''Microservices'' microservices_with_go_and_rabbitmq_md
      \<and> title_mentions ''Microservices'' microservices_with_go_and_rabbitmq_md"
    by (simp add: has_tag_def title_mentions_def string_field_def field_value_def raw_field_def
        raw_fields_def split_front_matter_def parse_value_def plain_scalar_def trim_def
        microservices_with_go_and_rabbitmq_md_def)
  have ingestion: "title_mentions ''Data Ingestion'' part_002_md"
    by (simp add: title_mentions_def title_part_002)
  have profile: "length (filter is_author_profile markdown_documents) = 1"
    by (simp add: markdown_documents_def is_author_profile_def field_keys_documents)
  have modules: "length (filter (declares ''experienceData'') js_modules) = 1
      \<and> length (filter (declares ''projectsData'') js_modules) = 1"
    by (simp add: js_modules_def declares_def projectsData_js_def experienceData_js_def)
  from nft automl micro ingestion profile modules show ?thesis
    unfolding blog_posts_are list_ex_iff by (simp only: list.set) blast
qed

text \<open>
  Claim C8. The second document of \<^verbatim>\<open>part_000\<close> and the document of \<^verbatim>\<open>part_001\<close> are
  two different blog posts with the same metadata: the title
  \<^verbatim>\<open>AutoML and Neural Architecture Search.\<close> and the date \<^verbatim>\<open>2023-07-06\<close>. Their bodies
  differ. Whatever key a consumer derives from the title of a post, it derives the same key
  for both.
\<close>

theorem two_posts_share_title_and_date:
  "part_000_second_md \<in> set blog_posts \<and> part_001_md \<in> set blog_posts
   \<and> part_000_second_md \<noteq> part_001_md
   \<and> map_option title (post_metadata part_000_second_md)
       = Some ''AutoML and Neural Architecture Search.''
   \<and> map_option title (post_metadata part_001_md)
       = Some ''AutoML and Neural Architecture Search.''
   \<and> map_option date (post_metadata part_000_second_md) = Some ''2023-07-06''
   \<and> map_option date (post_metadata part_001_md) = Some ''2023-07-06''
   \<and> body_of part_000_second_md \<noteq> body_of part_001_md
   \<and> key (map_option title (post_metadata part_000_second_md))
       = key (map_option title (post_metadata part_001_md))"
proof -
  have bodies: "body_of part_000_second_md \<noteq> body_of part_001_md"
    by (simp add: body_of_def split_front_matter_def part_000_second_md_def part_001_md_def)
  then have "part_000_second_md \<noteq> part_001_md"
    by auto
  with bodies show ?thesis
    by (simp add: blog_posts_are post_metadata_part_000_second post_metadata_part_001)
qed


end
